theory Spec2Isabelle
  imports Main
begin

section \<open>The file-processing handler (lambda/processor.ts)\<close>

subsection \<open>The S3 event, as far as the handler reads it\<close>

text \<open>
  The handler reads \<^verbatim>\<open>event.Records\<close>, \<^verbatim>\<open>record.s3.object.key\<close> and
  \<^verbatim>\<open>record.s3.object.size\<close>. \<^verbatim>\<open>Records\<close> is read with \<^verbatim>\<open>?.\<close>, so a missing
  property is part of the input space: it is \<open>None\<close> here. The size of an S3 object is a
  byte count; it is an integer, for which JavaScript's \<^verbatim>\<open>String(n)\<close> is the decimal
  numeral (below \<open>10^21\<close>).
\<close>

record s3_object =
  key :: string
  size' :: int

record s3_entity =
  object :: s3_object

record S3EventRecord =
  s3 :: s3_entity

record S3Event =
  Records :: "S3EventRecord list option"

subsection \<open>JSON.stringify on the values the handler builds\<close>

datatype json = JString string | JBool bool | JObject "(string \<times> json) list"

definition hex_digit :: "nat \<Rightarrow> char" where
  "hex_digit n = (if n < 10 then char_of (48 + n) else char_of (87 + n))"

text \<open>
  QuoteJSONString of ECMAScript: the quote and the backslash are escaped, the control
  characters below \<open>0x20\<close> have a short escape or \<^verbatim>\<open>\u00xx\<close>; every other code unit
  is copied.
\<close>

definition escape_char :: "char \<Rightarrow> string" where
  "escape_char c =
     (let n = (of_char c :: nat) in
      if n = 0x22 then [CHR 0x5C, CHR 0x22]
      else if n = 0x5C then [CHR 0x5C, CHR 0x5C]
      else if n = 0x08 then [CHR 0x5C, CHR ''b'']
      else if n = 0x09 then [CHR 0x5C, CHR ''t'']
      else if n = 0x0A then [CHR 0x5C, CHR ''n'']
      else if n = 0x0C then [CHR 0x5C, CHR ''f'']
      else if n = 0x0D then [CHR 0x5C, CHR ''r'']
      else if n < 0x20 then
        [CHR 0x5C, CHR ''u'', CHR ''0'', CHR ''0'', hex_digit (n div 16), hex_digit (n mod 16)]
      else [c])"

definition quote :: "string \<Rightarrow> string" where
  "quote s = [CHR 0x22] @ concat (map escape_char s) @ [CHR 0x22]"

fun join :: "string \<Rightarrow> string list \<Rightarrow> string" where
  "join sep [] = []"
| "join sep [x] = x"
| "join sep (x # y # ys) = x @ sep @ join sep (y # ys)"

fun JSON_stringify :: "json \<Rightarrow> string" where
  "JSON_stringify (JString s) = quote s"
| "JSON_stringify (JBool b) = (if b then ''true'' else ''false'')"
| "JSON_stringify (JObject kvs) =
     ''{'' @ join '','' (map (\<lambda>(k, v). quote k @ '':'' @ JSON_stringify v) kvs) @ ''}''"

subsection \<open>String(n) on an integer\<close>

function decimal :: "nat \<Rightarrow> string" where
  "decimal n = (if n < 10 then [char_of (48 + n)] else decimal (n div 10) @ [char_of (48 + n mod 10)])"
  by pat_completeness auto
termination
  by (relation "measure id") auto

definition String_of_number :: "int \<Rightarrow> string" where
  "String_of_number i = (if i < 0 then ''-'' @ decimal (nat (- i)) else decimal (nat i))"

subsection \<open>The service clients and what the handler does to them\<close>

text \<open>
  A DynamoDB item is an object from attribute names to attribute values; the order of the
  properties is the order of the object literal, which \<^verbatim>\<open>JSON.stringify\<close> follows.
\<close>

datatype AttributeValue = S string | N string

type_synonym item = "(string \<times> AttributeValue) list"

record PutItemCommand =
  TableName :: "string option"
  Item :: item

record SendMessageCommand =
  QueueUrl :: "string option"
  MessageBody :: string
  MessageAttributes :: "(string \<times> AttributeValue) list"

text \<open>
  What a rejected \<^verbatim>\<open>send\<close> throws: an \<^verbatim>\<open>Error\<close> instance with its \<^verbatim>\<open>stack\<close>, or
  any other value, given by its \<^verbatim>\<open>String(...)\<close>.
\<close>

datatype thrown = ErrorInstance "string option" | OtherValue string

text \<open>
  The surroundings of one invocation: the two environment variables (read with \<^verbatim>\<open>!\<close>,
  which checks nothing at run time), the clock, the outcome of each client call
  (\<open>Inl\<close> is a rejected promise), and the stack the engine gives to a \<^verbatim>\<open>new Error(msg)\<close>.
\<close>

record runtime =
  TABLE_NAME :: "string option"
  QUEUE_URL :: "string option"
  Date_toISOString :: string
  dynamo_send :: "PutItemCommand \<Rightarrow> thrown + unit"
  sqs_send :: "SendMessageCommand \<Rightarrow> thrown + unit"
  new_Error_stack :: "string \<Rightarrow> string option"

text \<open>The handler's observable actions, in the order in which they happen.\<close>

datatype action =
    DynamoSend PutItemCommand "thrown + unit"
  | SqsSend SendMessageCommand "thrown + unit"
  | ConsoleError string "string option"

record LambdaResponse =
  statusCode :: int
  body :: string

fun json_of_attribute :: "AttributeValue \<Rightarrow> json" where
  "json_of_attribute (S s) = JObject [(''S'', JString s)]"
| "json_of_attribute (N s) = JObject [(''N'', JString s)]"

definition json_of_item :: "item \<Rightarrow> json" where
  "json_of_item it = JObject (map (\<lambda>(k, a). (k, json_of_attribute a)) it)"

text \<open>Lines 48 to 53: the item.\<close>

definition metadata :: "runtime \<Rightarrow> S3EventRecord \<Rightarrow> item" where
  "metadata rt record =
     [(''fileId'', S (key (object (s3 record)))),
      (''status'', S ''PROCESSED''),
      (''timestamp'', S (Date_toISOString rt)),
      (''size'', N (String_of_number (size' (object (s3 record)))))]"

text \<open>Lines 79 to 94: the catch block.\<close>

definition err_stack :: "runtime \<Rightarrow> thrown \<Rightarrow> string option" where
  "err_stack rt e = (case e of ErrorInstance st \<Rightarrow> st | OtherValue v \<Rightarrow> new_Error_stack rt v)"

definition catch :: "runtime \<Rightarrow> string \<Rightarrow> thrown \<Rightarrow> LambdaResponse \<times> action list" where
  "catch rt fileId e =
     (\<lparr>statusCode = 500,
       body = JSON_stringify (JObject [(''error'', JString ''Internal error''),
                                       (''requestId'', JString fileId)])\<rparr>,
      [ConsoleError (''FAILED '' @ fileId @ '':'') (err_stack rt e)])"

text \<open>
  The handler: the response it resolves to and the actions it performed. A thrown value
  passes the actions done so far on to the catch block.
\<close>

definition handler :: "runtime \<Rightarrow> S3Event \<Rightarrow> LambdaResponse \<times> action list" where
  "handler rt event =
     (case Records event of
        None \<Rightarrow>
          (\<lparr>statusCode = 400,
            body = JSON_stringify (JObject [(''error'', JString ''Invalid event'')])\<rparr>, [])
      | Some [] \<Rightarrow>
          (\<lparr>statusCode = 400,
            body = JSON_stringify (JObject [(''error'', JString ''Invalid event'')])\<rparr>, [])
      | Some (record # _) \<Rightarrow>
          (let fileId = key (object (s3 record));
               put = \<lparr>TableName = TABLE_NAME rt, Item = metadata rt record\<rparr>
           in case dynamo_send rt put of
             Inl e \<Rightarrow>
               (let (resp, log) = catch rt fileId e
                in (resp, DynamoSend put (Inl e) # log))
           | Inr u \<Rightarrow>
               (let msg = \<lparr>QueueUrl = QUEUE_URL rt,
                           MessageBody = JSON_stringify (json_of_item (metadata rt record)),
                           MessageAttributes = []\<rparr>
                in case sqs_send rt msg of
                  Inl e \<Rightarrow>
                    (let (resp, log) = catch rt fileId e
                     in (resp, DynamoSend put (Inr u) # SqsSend msg (Inl e) # log))
                | Inr v \<Rightarrow>
                    (\<lparr>statusCode = 200,
                      body = JSON_stringify (JObject [(''success'', JBool True),
                                                      (''fileId'', JString fileId)])\<rparr>,
                     [DynamoSend put (Inr u), SqsSend msg (Inr v)]))))"

text \<open>An event is well formed when \<^verbatim>\<open>Records\<close> is there and is not empty.\<close>

definition well_formed :: "S3Event \<Rightarrow> bool" where
  "well_formed event = (case Records event of None \<Rightarrow> False | Some rs \<Rightarrow> rs \<noteq> [])"

text \<open>What reached the table and what reached the queue: the calls that resolved.\<close>

fun written :: "action list \<Rightarrow> PutItemCommand list" where
  "written [] = []"
| "written (DynamoSend p (Inr u) # as) = p # written as"
| "written (a # as) = written as"

fun sent :: "action list \<Rightarrow> SendMessageCommand list" where
  "sent [] = []"
| "sent (SqsSend m (Inr u) # as) = m # sent as"
| "sent (a # as) = sent as"

text \<open>A call that was made and rejected.\<close>

fun rejected :: "action \<Rightarrow> bool" where
  "rejected (DynamoSend p (Inl e)) = True"
| "rejected (SqsSend m (Inl e)) = True"
| "rejected a = False"

section \<open>The deployed configuration (lib/my\_small\_project-stack.ts)\<close>

text \<open>
  The constructor of \<^verbatim>\<open>MySmallProjectStack\<close> runs once, at synthesis, and leaves a
  description of resources and of the wiring between them. Constructs are named by their
  construct id. The stack type has a place for each kind of wiring by which the platform
  invokes a function (a bucket notification to a function, a queue as an event source, a
  gateway method), so that the wiring the constructor does not make is visible as absent.
\<close>

datatype EventType = OBJECT_CREATED

datatype destination = SqsDestination string | LambdaDestination string

datatype integration = LambdaIntegration string

datatype AttributeType = STRING

datatype BillingMode = PAY_PER_REQUEST

datatype Runtime = NODEJS_20_X

datatype token = tableName string | queueUrl string

datatype grant = Read string | WriteData string | SendMessages string

record TableProps =
  partitionKey :: "string \<times> AttributeType"
  billingMode :: BillingMode

record FunctionProps =
  fn_runtime :: Runtime
  fn_code :: string
  fn_handler :: string
  fn_environment :: "(string \<times> token) list"

record stack =
  buckets :: "string list"
  queues :: "string list"
  tables :: "(string \<times> TableProps) list"
  lambda_functions :: "(string \<times> FunctionProps) list"
  notifications :: "(string \<times> EventType \<times> destination) list"
  eventSources :: "(string \<times> string) list"
  grants :: "(string \<times> grant) list"
  restApis :: "string list"
  methods :: "(string \<times> string list \<times> string \<times> integration) list"

definition empty_stack :: stack where
  "empty_stack = \<lparr>buckets = [], queues = [], tables = [], lambda_functions = [], notifications = [],
     eventSources = [], grants = [], restApis = [], methods = []\<rparr>"

definition Bucket :: "string \<Rightarrow> stack \<Rightarrow> stack" where
  "Bucket b st = st\<lparr>buckets := buckets st @ [b]\<rparr>"

definition Queue :: "string \<Rightarrow> stack \<Rightarrow> stack" where
  "Queue q st = st\<lparr>queues := queues st @ [q]\<rparr>"

definition Table :: "string \<Rightarrow> TableProps \<Rightarrow> stack \<Rightarrow> stack" where
  "Table t props st = st\<lparr>tables := tables st @ [(t, props)]\<rparr>"

definition Function :: "string \<Rightarrow> FunctionProps \<Rightarrow> stack \<Rightarrow> stack" where
  "Function f props st = st\<lparr>lambda_functions := lambda_functions st @ [(f, props)]\<rparr>"

definition RestApi :: "string \<Rightarrow> stack \<Rightarrow> stack" where
  "RestApi a st = st\<lparr>restApis := restApis st @ [a]\<rparr>"

definition addEventNotification :: "string \<Rightarrow> EventType \<Rightarrow> destination \<Rightarrow> stack \<Rightarrow> stack" where
  "addEventNotification b ev dest st = st\<lparr>notifications := notifications st @ [(b, ev, dest)]\<rparr>"

definition grantRead :: "string \<Rightarrow> string \<Rightarrow> stack \<Rightarrow> stack" where
  "grantRead b grantee st = st\<lparr>grants := grants st @ [(grantee, Read b)]\<rparr>"

definition grantWriteData :: "string \<Rightarrow> string \<Rightarrow> stack \<Rightarrow> stack" where
  "grantWriteData t grantee st = st\<lparr>grants := grants st @ [(grantee, WriteData t)]\<rparr>"

definition grantSendMessages :: "string \<Rightarrow> string \<Rightarrow> stack \<Rightarrow> stack" where
  "grantSendMessages q grantee st = st\<lparr>grants := grants st @ [(grantee, SendMessages q)]\<rparr>"

definition addMethod :: "string \<Rightarrow> string list \<Rightarrow> string \<Rightarrow> integration \<Rightarrow> stack \<Rightarrow> stack" where
  "addMethod a path verb integ st = st\<lparr>methods := methods st @ [(a, path, verb, integ)]\<rparr>"

text \<open>The constructor, statement by statement (lines 21 to 67).\<close>

definition MySmallProjectStack :: stack where
  "MySmallProjectStack =
     (let st = empty_stack;
          st = Bucket ''UploadBucket'' st;
          st = Queue ''NotificationQueue'' st;
          st = addEventNotification ''UploadBucket'' OBJECT_CREATED
                 (SqsDestination ''NotificationQueue'') st;
          st = Table ''MetadataTable''
                 \<lparr>partitionKey = (''fileId'', STRING), billingMode = PAY_PER_REQUEST\<rparr> st;
          st = Function ''LambdaProcessingTheFile''
                 \<lparr>fn_runtime = NODEJS_20_X, fn_code = ''lambda'', fn_handler = ''processor.handler'',
                  fn_environment = [(''TABLE_NAME'', tableName ''MetadataTable''),
                                    (''QUEUE_URL'', queueUrl ''NotificationQueue'')]\<rparr> st;
          st = grantRead ''UploadBucket'' ''LambdaProcessingTheFile'' st;
          st = grantWriteData ''MetadataTable'' ''LambdaProcessingTheFile'' st;
          st = grantSendMessages ''NotificationQueue'' ''LambdaProcessingTheFile'' st;
          st = addEventNotification ''UploadBucket'' OBJECT_CREATED
                 (SqsDestination ''NotificationQueue'') st;
          st = RestApi ''FileApi'' st;
          st = addMethod ''FileApi'' [''files'', ''{fileId}''] ''GET''
                 (LambdaIntegration ''LambdaProcessingTheFile'') st
      in st)"

text \<open>Where a bucket's notifications for an event type go.\<close>

definition notified :: "stack \<Rightarrow> string \<Rightarrow> EventType \<Rightarrow> destination list" where
  "notified st b ev = map (\<lambda>(b', ev', d). d) (filter (\<lambda>(b', ev', d). b' = b \<and> ev' = ev) (notifications st))"

text \<open>Everything in a stack that invokes a given function.\<close>

datatype invoker = BucketNotification string EventType | QueueEventSource string
  | ApiMethod string "string list" string

definition invokers :: "stack \<Rightarrow> string \<Rightarrow> invoker list" where
  "invokers st f =
     map (\<lambda>(b, ev, d). BucketNotification b ev)
       (filter (\<lambda>(b, ev, d). d = LambdaDestination f) (notifications st))
     @ map (\<lambda>(f', q). QueueEventSource q) (filter (\<lambda>(f', q). f' = f) (eventSources st))
     @ map (\<lambda>(a, path, verb, i). ApiMethod a path verb)
         (filter (\<lambda>(a, path, verb, i). i = LambdaIntegration f) (methods st))"

text \<open>The integration behind a route of the gateway.\<close>

definition route :: "stack \<Rightarrow> string \<Rightarrow> string list \<Rightarrow> integration option" where
  "route st verb path =
     map_of (map (\<lambda>(a, path', verb', i). ((verb', path'), i)) (methods st)) (verb, path)"

text \<open>
  An item fits a table's key schema when it has the partition key attribute, with a value
  of the declared type.
\<close>

definition has_partition_key :: "TableProps \<Rightarrow> item \<Rightarrow> bool" where
  "has_partition_key props it =
     (case (snd (partitionKey props), map_of it (fst (partitionKey props))) of
        (STRING, Some (S v)) \<Rightarrow> True
      | _ \<Rightarrow> False)"

section \<open>Concrete invocations\<close>

definition happy_runtime :: runtime where
  "happy_runtime =
     \<lparr>TABLE_NAME = Some ''MetadataTable'', QUEUE_URL = Some ''https://sqs/NotificationQueue'',
      Date_toISOString = ''2024-05-01T12:00:00.000Z'',
      dynamo_send = (\<lambda>p. Inr ()), sqs_send = (\<lambda>m. Inr ()), new_Error_stack = (\<lambda>msg. None)\<rparr>"

definition dynamo_down :: runtime where
  "dynamo_down = happy_runtime\<lparr>dynamo_send := (\<lambda>p. Inl (ErrorInstance (Some ''Error: throttled'')))\<rparr>"

definition sqs_down :: runtime where
  "sqs_down = happy_runtime\<lparr>sqs_send := (\<lambda>m. Inl (OtherValue ''timeout''))\<rparr>"

definition upload_a :: S3EventRecord where
  "upload_a = \<lparr>s3 = \<lparr>object = \<lparr>key = ''a.txt'', size' = 1024\<rparr>\<rparr>\<rparr>"

definition upload_b :: S3EventRecord where
  "upload_b = \<lparr>s3 = \<lparr>object = \<lparr>key = ''b.txt'', size' = 7\<rparr>\<rparr>\<rparr>"

definition event_a :: S3Event where
  "event_a = \<lparr>Records = Some [upload_a]\<rparr>"

definition event_b :: S3Event where
  "event_b = \<lparr>Records = Some [upload_b]\<rparr>"

definition event_a_b :: S3Event where
  "event_a_b = \<lparr>Records = Some [upload_a, upload_b]\<rparr>"

definition empty_event :: S3Event where
  "empty_event = \<lparr>Records = Some []\<rparr>"

text \<open>
  The event of a gateway proxy integration (path parameters, headers, request context) has
  no \<^verbatim>\<open>Records\<close> property; read at the handler's parameter type it is this event.
\<close>

definition proxy_event :: S3Event where
  "proxy_event = \<lparr>Records = None\<rparr>"

text \<open>The message that the upload of \<^verbatim>\<open>a.txt\<close> puts on the queue.\<close>

definition message_a :: SendMessageCommand where
  \<open>message_a =
     \<lparr>QueueUrl = Some ''https://sqs/NotificationQueue'',
      MessageBody = ''{"fileId":{"S":"a.txt"},"status":{"S":"PROCESSED"},"timestamp":{"S":"2024-05-01T12:00:00.000Z"},"size":{"N":"1024"}}'',
      MessageAttributes = []\<rparr>\<close>

definition put_a :: PutItemCommand where
  "put_a =
     \<lparr>TableName = Some ''MetadataTable'',
      Item = [(''fileId'', S ''a.txt''), (''status'', S ''PROCESSED''),
              (''timestamp'', S ''2024-05-01T12:00:00.000Z''), (''size'', N ''1024'')]\<rparr>"

section \<open>The two paths of the handler\<close>

lemma handler_Nil:
  "Records ev = None \<or> Records ev = Some [] \<Longrightarrow>
   handler rt ev =
     (\<lparr>statusCode = 400,
       body = JSON_stringify (JObject [(''error'', JString ''Invalid event'')])\<rparr>, [])"
  by (auto simp: handler_def)

lemma handler_Cons:
  assumes "Records ev = Some (r # rs)"
  shows "handler rt ev =
    (let fileId = key (object (s3 r));
         put = \<lparr>TableName = TABLE_NAME rt, Item = metadata rt r\<rparr>;
         msg = \<lparr>QueueUrl = QUEUE_URL rt,
                MessageBody = JSON_stringify (json_of_item (metadata rt r)),
                MessageAttributes = []\<rparr>
     in case dynamo_send rt put of
          Inl e \<Rightarrow> (fst (catch rt fileId e), DynamoSend put (Inl e) # snd (catch rt fileId e))
        | Inr u \<Rightarrow>
            (case sqs_send rt msg of
               Inl e \<Rightarrow> (fst (catch rt fileId e),
                          DynamoSend put (Inr u) # SqsSend msg (Inl e) # snd (catch rt fileId e))
             | Inr v \<Rightarrow>
                 (\<lparr>statusCode = 200,
                   body = JSON_stringify (JObject [(''success'', JBool True),
                                                   (''fileId'', JString fileId)])\<rparr>,
                  [DynamoSend put (Inr u), SqsSend msg (Inr v)])))"
  using assms by (simp add: handler_def Let_def split: sum.splits prod.splits)

lemma well_formed_Cons: "well_formed ev \<Longrightarrow> \<exists>r rs. Records ev = Some (r # rs)"
  by (auto simp: well_formed_def neq_Nil_conv split: option.splits)

lemma not_well_formed: "\<not> well_formed ev \<Longrightarrow> Records ev = None \<or> Records ev = Some []"
  by (auto simp: well_formed_def split: option.splits)

lemma invalid_body:
  \<open>JSON_stringify (JObject [(''error'', JString ''Invalid event'')]) = ''{"error":"Invalid event"}''\<close>
  by (simp add: quote_def escape_char_def)

lemma written_cases:
  assumes "p \<in> set (written (snd (handler rt ev)))"
  shows "\<exists>r rs. Records ev = Some (r # rs)
     \<and> p = \<lparr>TableName = TABLE_NAME rt, Item = metadata rt r\<rparr>
     \<and> dynamo_send rt p = Inr ()"
proof (cases "well_formed ev")
  case False
  with assms show ?thesis by (auto dest!: not_well_formed simp: handler_Nil)
next
  case True
  then obtain r rs where R: "Records ev = Some (r # rs)"
    using well_formed_Cons by blast
  show ?thesis
    using assms R by (auto simp: handler_Cons [OF R] Let_def catch_def split: sum.splits)
qed

lemmas stack_defs = MySmallProjectStack_def empty_stack_def Bucket_def Queue_def Table_def
  Function_def RestApi_def addEventNotification_def grantRead_def grantWriteData_def
  grantSendMessages_def addMethod_def

lemmas input_defs = happy_runtime_def dynamo_down_def sqs_down_def upload_a_def upload_b_def
  event_a_def event_b_def event_a_b_def empty_event_def proxy_event_def

text \<open>Two runs, evaluated: every call resolves; the queue rejects the message.\<close>

lemma happy_a:
  "handler happy_runtime event_a =
     (\<lparr>statusCode = 200,
       body = JSON_stringify (JObject [(''success'', JBool True), (''fileId'', JString ''a.txt'')])\<rparr>,
      [DynamoSend put_a (Inr ()), SqsSend message_a (Inr ())])"
  by code_simp

lemma sqs_down_a:
  \<open>handler sqs_down event_a =
     (\<lparr>statusCode = 500, body = ''{"error":"Internal error","requestId":"a.txt"}''\<rparr>,
      [DynamoSend put_a (Inr ()), SqsSend message_a (Inl (OtherValue ''timeout'')),
       ConsoleError ''FAILED a.txt:'' None])\<close>
  by code_simp

section \<open>Validation\<close>

text \<open>
  C2. For every malformed event (\<^verbatim>\<open>Records\<close> missing or empty) the handler returns a
  response with status code 400, whatever the surroundings.
\<close>

theorem handler_malformed_400:
  "\<not> well_formed ev \<Longrightarrow> statusCode (fst (handler rt ev)) = 400"
  by (drule not_well_formed) (simp add: handler_Nil)

theorem handler_malformed_400_witness:
  "\<not> well_formed empty_event \<and> statusCode (fst (handler happy_runtime empty_event)) = 400"
  using handler_malformed_400 [of empty_event happy_runtime]
  by (simp add: well_formed_def empty_event_def)

text \<open>
  C10. For every malformed event the handler returns the 400 response without any external
  call: it performs no action at all, so nothing is written to the table and nothing is sent
  to the queue.
\<close>

theorem handler_malformed_no_effects:
  \<open>\<not> well_formed ev \<Longrightarrow>
   snd (handler rt ev) = [] \<and> written (snd (handler rt ev)) = [] \<and> sent (snd (handler rt ev)) = []
   \<and> fst (handler rt ev) = \<lparr>statusCode = 400, body = ''{"error":"Invalid event"}''\<rparr>\<close>
proof -
  assume "\<not> well_formed ev"
  then have H: "handler rt ev =
      (\<lparr>statusCode = 400,
        body = JSON_stringify (JObject [(''error'', JString ''Invalid event'')])\<rparr>, [])"
    by (intro handler_Nil not_well_formed)
  show ?thesis unfolding H invalid_body by simp
qed

theorem handler_malformed_no_effects_witness:
  "\<not> well_formed proxy_event \<and> snd (handler dynamo_down proxy_event) = []"
  using handler_malformed_no_effects [of proxy_event dynamo_down]
  by (simp add: well_formed_def proxy_event_def)

section \<open>The try block\<close>

text \<open>
  C1, as the code has it. For every well-formed event on which no external call is
  rejected, the handler writes exactly one metadata record to the table (the item of the
  first record, under \<^verbatim>\<open>TABLE_NAME\<close>), then sends exactly one message to the queue, and
  returns the success response with status code 200.
\<close>

theorem handler_success_writes_and_sends_once:
  assumes "well_formed ev" and "\<not> list_ex rejected (snd (handler rt ev))"
  shows "\<exists>r rs put msg. Records ev = Some (r # rs)
     \<and> put = \<lparr>TableName = TABLE_NAME rt, Item = metadata rt r\<rparr>
     \<and> msg = \<lparr>QueueUrl = QUEUE_URL rt,
               MessageBody = JSON_stringify (json_of_item (metadata rt r)),
               MessageAttributes = []\<rparr>
     \<and> written (snd (handler rt ev)) = [put]
     \<and> sent (snd (handler rt ev)) = [msg]
     \<and> snd (handler rt ev) = [DynamoSend put (Inr ()), SqsSend msg (Inr ())]
     \<and> fst (handler rt ev) =
         \<lparr>statusCode = 200,
          body = JSON_stringify (JObject [(''success'', JBool True),
                                          (''fileId'', JString (key (object (s3 r))))])\<rparr>"
proof -
  from assms(1) obtain r rs where R: "Records ev = Some (r # rs)"
    using well_formed_Cons by blast
  show ?thesis
    using assms(2) R
    by (auto simp: handler_Cons [OF R] Let_def catch_def split: sum.splits)
qed

theorem handler_success_writes_and_sends_once_witness:
  "well_formed event_a \<and> \<not> list_ex rejected (snd (handler happy_runtime event_a))
   \<and> written (snd (handler happy_runtime event_a)) = [put_a]
   \<and> sent (snd (handler happy_runtime event_a)) = [message_a]
   \<and> statusCode (fst (handler happy_runtime event_a)) = 200"
proof -
  have h1: "well_formed event_a" by (simp add: well_formed_def event_a_def)
  have h2: "\<not> list_ex rejected (snd (handler happy_runtime event_a))" by (simp add: happy_a)
  from handler_success_writes_and_sends_once [OF h1 h2] obtain put msg where
    "written (snd (handler happy_runtime event_a)) = [put]"
    "sent (snd (handler happy_runtime event_a)) = [msg]"
    "snd (handler happy_runtime event_a) = [DynamoSend put (Inr ()), SqsSend msg (Inr ())]"
    "statusCode (fst (handler happy_runtime event_a)) = 200"
    by force
  with h1 h2 show ?thesis by (simp add: happy_a)
qed

text \<open>
  C1, as it is written, fails where the table client rejects the write: the event is well
  formed, yet no record is written, no message is sent and the response is the 500 one.
\<close>

theorem handler_rejected_write_counterexample:
  "well_formed event_a
   \<and> written (snd (handler dynamo_down event_a)) = []
   \<and> sent (snd (handler dynamo_down event_a)) = []
   \<and> statusCode (fst (handler dynamo_down event_a)) = 500"
  by (simp add: input_defs well_formed_def handler_def catch_def Let_def)

text \<open>
  C5, as the code has it. Whenever an external call of the try block is rejected, the
  response has status code 500 and the body
  \<^verbatim>\<open>{"error":"Internal error","requestId":<key of the first record>}\<close>: it is the same
  whichever call was rejected and whatever was thrown, and it depends on the event through
  the object key of the first record only.
\<close>

theorem catch_response_fixed_up_to_fileId:
  assumes "list_ex rejected (snd (handler rt ev))"
  shows "\<exists>r rs. Records ev = Some (r # rs)
     \<and> fst (handler rt ev) =
         \<lparr>statusCode = 500,
          body = JSON_stringify (JObject [(''error'', JString ''Internal error''),
                                          (''requestId'', JString (key (object (s3 r))))])\<rparr>"
proof (cases "Records ev")
  case None
  with assms show ?thesis by (simp add: handler_Nil)
next
  case (Some xs)
  show ?thesis
  proof (cases xs)
    case Nil
    with Some assms show ?thesis by (simp add: handler_Nil)
  next
    case (Cons r rs)
    with Some have R: "Records ev = Some (r # rs)" by simp
    show ?thesis
      using assms R
      by (auto simp: handler_Cons [OF R] Let_def catch_def split: sum.splits)
  qed
qed

theorem catch_response_fixed_up_to_fileId_witness:
  \<open>list_ex rejected (snd (handler sqs_down event_a))
   \<and> fst (handler sqs_down event_a)
       = \<lparr>statusCode = 500, body = ''{"error":"Internal error","requestId":"a.txt"}''\<rparr>\<close>
proof -
  have h: "list_ex rejected (snd (handler sqs_down event_a))" by (simp add: sqs_down_a)
  from catch_response_fixed_up_to_fileId [OF h]
  have "statusCode (fst (handler sqs_down event_a)) = 500" by force
  with h show ?thesis by (simp add: sqs_down_a)
qed

text \<open>
  C5, as it is written, fails: with the same rejected write, two events with different
  object keys get different 500 responses.
\<close>

theorem catch_response_depends_on_input_counterexample:
  \<open>list_ex rejected (snd (handler dynamo_down event_a))
   \<and> list_ex rejected (snd (handler dynamo_down event_b))
   \<and> body (fst (handler dynamo_down event_a)) = ''{"error":"Internal error","requestId":"a.txt"}''
   \<and> body (fst (handler dynamo_down event_b)) = ''{"error":"Internal error","requestId":"b.txt"}''
   \<and> fst (handler dynamo_down event_a) \<noteq> fst (handler dynamo_down event_b)\<close>
  by (simp add: input_defs handler_def catch_def quote_def escape_char_def Let_def)

text \<open>
  C6. For every well-formed event the handler's actions are a linear sequence: the write to
  the table, then the send to the queue, then the response. The run is the whole sequence
  with the 200 response, or it stops at the first rejected call, logs, and returns the 500
  response; the send is never made unless the write resolved. There is no other run.
\<close>

theorem handler_linear_sequence:
  assumes "well_formed ev"
  shows "\<exists>r rs put msg. Records ev = Some (r # rs)
     \<and> put = \<lparr>TableName = TABLE_NAME rt, Item = metadata rt r\<rparr>
     \<and> msg = \<lparr>QueueUrl = QUEUE_URL rt,
               MessageBody = JSON_stringify (json_of_item (metadata rt r)),
               MessageAttributes = []\<rparr>
     \<and> ((snd (handler rt ev) = [DynamoSend put (Inr ()), SqsSend msg (Inr ())]
          \<and> statusCode (fst (handler rt ev)) = 200)
        \<or> (\<exists>e. snd (handler rt ev) =
                 [DynamoSend put (Inl e),
                  ConsoleError (''FAILED '' @ key (object (s3 r)) @ '':'') (err_stack rt e)]
              \<and> statusCode (fst (handler rt ev)) = 500)
        \<or> (\<exists>e. snd (handler rt ev) =
                 [DynamoSend put (Inr ()), SqsSend msg (Inl e),
                  ConsoleError (''FAILED '' @ key (object (s3 r)) @ '':'') (err_stack rt e)]
              \<and> statusCode (fst (handler rt ev)) = 500))"
proof -
  from assms obtain r rs where R: "Records ev = Some (r # rs)"
    using well_formed_Cons by blast
  show ?thesis
    using R by (auto simp: handler_Cons [OF R] Let_def catch_def split: sum.splits)
qed

theorem handler_linear_sequence_witness:
  "well_formed event_a
   \<and> snd (handler sqs_down event_a) = [DynamoSend put_a (Inr ()),
        SqsSend message_a (Inl (OtherValue ''timeout'')), ConsoleError ''FAILED a.txt:'' None]
   \<and> statusCode (fst (handler sqs_down event_a)) = 500"
proof -
  have h: "well_formed event_a" by (simp add: well_formed_def event_a_def)
  from handler_linear_sequence [OF h, of sqs_down]
  have "statusCode (fst (handler sqs_down event_a)) \<in> {200, 500}" by auto
  with h show ?thesis by (simp add: sqs_down_a)
qed

section \<open>The persisted record and the message\<close>

text \<open>
  C7. Every record the handler persists has exactly the four attributes \<^verbatim>\<open>fileId\<close>,
  \<^verbatim>\<open>status\<close>, \<^verbatim>\<open>timestamp\<close> and \<^verbatim>\<open>size\<close>, in this order; its \<^verbatim>\<open>fileId\<close> is
  the object key of the first record of the event, and the item has the partition key that
  the stack declares for the metadata table.
\<close>

theorem persisted_item_fields:
  assumes "p \<in> set (written (snd (handler rt ev)))"
  shows "map fst (Item p) = [''fileId'', ''status'', ''timestamp'', ''size'']
     \<and> (\<exists>r rs. Records ev = Some (r # rs)
          \<and> map_of (Item p) ''fileId'' = Some (S (key (object (s3 r)))))
     \<and> (\<exists>props. map_of (tables MySmallProjectStack) ''MetadataTable'' = Some props
          \<and> has_partition_key props (Item p))"
proof -
  from written_cases [OF assms] obtain r rs where
    R: "Records ev = Some (r # rs)" and P: "p = \<lparr>TableName = TABLE_NAME rt, Item = metadata rt r\<rparr>"
    by blast
  have T: "map_of (tables MySmallProjectStack) ''MetadataTable''
      = Some \<lparr>partitionKey = (''fileId'', STRING), billingMode = PAY_PER_REQUEST\<rparr>"
    by (simp add: stack_defs)
  show ?thesis
    using R P T by (simp add: metadata_def has_partition_key_def)
qed

theorem persisted_item_fields_witness:
  "put_a \<in> set (written (snd (handler happy_runtime event_a)))
   \<and> map fst (Item put_a) = [''fileId'', ''status'', ''timestamp'', ''size'']
   \<and> map_of (Item put_a) ''fileId'' = Some (S ''a.txt'')"
proof -
  have h: "put_a \<in> set (written (snd (handler happy_runtime event_a)))" by (simp add: happy_a)
  from persisted_item_fields [OF h]
  have "map fst (Item put_a) = [''fileId'', ''status'', ''timestamp'', ''size'']" by blast
  with h show ?thesis by (simp add: put_a_def)
qed

text \<open>
  C8. For every event with two or more records the handler processes the first record only.
  The item it puts is the metadata of \<^verbatim>\<open>Records[0]\<close>, with the object key of
  \<^verbatim>\<open>Records[0]\<close> as \<^verbatim>\<open>fileId\<close>; the message is the serialisation of that item; the
  response, 200 or 500, carries the object key of \<^verbatim>\<open>Records[0]\<close>. The records after the
  first have no effect: response and actions are those of any event that holds
  \<^verbatim>\<open>Records[0]\<close> followed by other records, or by none.
\<close>

theorem handler_first_record_only:
  assumes "Records ev = Some rs" and "2 \<le> length rs"
  shows "\<exists>put msg.
       put = \<lparr>TableName = TABLE_NAME rt, Item = metadata rt (rs ! 0)\<rparr>
     \<and> msg = \<lparr>QueueUrl = QUEUE_URL rt,
               MessageBody = JSON_stringify (json_of_item (metadata rt (rs ! 0))),
               MessageAttributes = []\<rparr>
     \<and> map_of (Item put) ''fileId'' = Some (S (key (object (s3 (rs ! 0)))))
     \<and> handler rt ev = handler rt \<lparr>Records = Some (rs ! 0 # rest)\<rparr>
     \<and> (handler rt ev =
           (\<lparr>statusCode = 200,
             body = JSON_stringify (JObject [(''success'', JBool True),
                      (''fileId'', JString (key (object (s3 (rs ! 0)))))])\<rparr>,
            [DynamoSend put (Inr ()), SqsSend msg (Inr ())])
        \<or> (\<exists>e. handler rt ev =
           (\<lparr>statusCode = 500,
             body = JSON_stringify (JObject [(''error'', JString ''Internal error''),
                      (''requestId'', JString (key (object (s3 (rs ! 0)))))])\<rparr>,
            [DynamoSend put (Inl e),
             ConsoleError (''FAILED '' @ key (object (s3 (rs ! 0))) @ '':'') (err_stack rt e)]))
        \<or> (\<exists>e. handler rt ev =
           (\<lparr>statusCode = 500,
             body = JSON_stringify (JObject [(''error'', JString ''Internal error''),
                      (''requestId'', JString (key (object (s3 (rs ! 0)))))])\<rparr>,
            [DynamoSend put (Inr ()), SqsSend msg (Inl e),
             ConsoleError (''FAILED '' @ key (object (s3 (rs ! 0))) @ '':'') (err_stack rt e)])))"
proof -
  from assms obtain r rs' where "rs = r # rs'" by (cases rs) auto
  with assms(1) have R: "Records ev = Some (r # rs')" and Z: "rs ! 0 = r" by simp_all
  have R': "Records \<lparr>Records = Some (r # rest)\<rparr> = Some (r # rest)" by simp
  have same: "handler rt ev = handler rt \<lparr>Records = Some (r # rest)\<rparr>"
    unfolding handler_Cons [OF R] handler_Cons [OF R'] ..
  have key: "map_of (metadata rt r) ''fileId'' = Some (S (key (object (s3 r))))"
    by (simp add: metadata_def)
  have runs: "handler rt ev =
           (\<lparr>statusCode = 200,
             body = JSON_stringify (JObject [(''success'', JBool True),
                      (''fileId'', JString (key (object (s3 r))))])\<rparr>,
            [DynamoSend \<lparr>TableName = TABLE_NAME rt, Item = metadata rt r\<rparr> (Inr ()),
             SqsSend \<lparr>QueueUrl = QUEUE_URL rt,
               MessageBody = JSON_stringify (json_of_item (metadata rt r)),
               MessageAttributes = []\<rparr> (Inr ())])
        \<or> (\<exists>e. handler rt ev =
           (\<lparr>statusCode = 500,
             body = JSON_stringify (JObject [(''error'', JString ''Internal error''),
                      (''requestId'', JString (key (object (s3 r))))])\<rparr>,
            [DynamoSend \<lparr>TableName = TABLE_NAME rt, Item = metadata rt r\<rparr> (Inl e),
             ConsoleError (''FAILED '' @ key (object (s3 r)) @ '':'') (err_stack rt e)]))
        \<or> (\<exists>e. handler rt ev =
           (\<lparr>statusCode = 500,
             body = JSON_stringify (JObject [(''error'', JString ''Internal error''),
                      (''requestId'', JString (key (object (s3 r))))])\<rparr>,
            [DynamoSend \<lparr>TableName = TABLE_NAME rt, Item = metadata rt r\<rparr> (Inr ()),
             SqsSend \<lparr>QueueUrl = QUEUE_URL rt,
               MessageBody = JSON_stringify (json_of_item (metadata rt r)),
               MessageAttributes = []\<rparr> (Inl e),
             ConsoleError (''FAILED '' @ key (object (s3 r)) @ '':'') (err_stack rt e)]))"
    unfolding handler_Cons [OF R] by (auto simp: Let_def catch_def split: sum.splits)
  show ?thesis
    unfolding Z using same key runs by simp
qed

theorem handler_first_record_only_witness:
  \<open>Records event_a_b = Some [upload_a, upload_b] \<and> 2 \<le> length [upload_a, upload_b]
   \<and> handler happy_runtime event_a_b = handler happy_runtime event_a
   \<and> handler happy_runtime event_a_b =
       (\<lparr>statusCode = 200, body = ''{"success":true,"fileId":"a.txt"}''\<rparr>,
        [DynamoSend put_a (Inr ()), SqsSend message_a (Inr ())])
   \<and> map_of (Item put_a) ''fileId'' = Some (S ''a.txt'')\<close>
proof -
  have h1: "Records event_a_b = Some [upload_a, upload_b]" by (simp add: event_a_b_def)
  have h2: "2 \<le> length [upload_a, upload_b]" by simp
  from handler_first_record_only [OF h1 h2, of happy_runtime "[]"]
  have same: "handler happy_runtime event_a_b = handler happy_runtime \<lparr>Records = Some [upload_a]\<rparr>"
    by simp
  have body: \<open>JSON_stringify (JObject [(''success'', JBool True), (''fileId'', JString ''a.txt'')])
      = ''{"success":true,"fileId":"a.txt"}''\<close>
    by (simp add: quote_def escape_char_def)
  show ?thesis
    using h1 h2 same unfolding body [symmetric]
    by (simp add: happy_a event_a_def [symmetric] put_a_def)
qed

text \<open>
  C9. Whenever the handler sends a message, its body is the JSON serialisation of the one
  item that the same invocation wrote to the table.
\<close>

theorem message_body_is_written_item:
  assumes "SqsSend m out \<in> set (snd (handler rt ev))"
  shows "\<exists>p. written (snd (handler rt ev)) = [p]
     \<and> MessageBody m = JSON_stringify (json_of_item (Item p))"
proof (cases "well_formed ev")
  case False
  with assms show ?thesis by (auto dest!: not_well_formed simp: handler_Nil)
next
  case True
  then obtain r rs where R: "Records ev = Some (r # rs)"
    using well_formed_Cons by blast
  show ?thesis
    using assms R by (auto simp: handler_Cons [OF R] Let_def catch_def split: sum.splits)
qed

theorem message_body_is_written_item_witness:
  "SqsSend message_a (Inr ()) \<in> set (snd (handler happy_runtime event_a))
   \<and> MessageBody message_a = JSON_stringify (json_of_item (Item put_a))"
proof -
  have h: "SqsSend message_a (Inr ()) \<in> set (snd (handler happy_runtime event_a))"
    by (simp add: happy_a)
  from message_body_is_written_item [OF h]
  obtain p where "written (snd (handler happy_runtime event_a)) = [p]"
    and "MessageBody message_a = JSON_stringify (json_of_item (Item p))" by blast
  with h show ?thesis by (simp add: happy_a)
qed

section \<open>The wiring of the stack\<close>

text \<open>
  C3, evaluated on the stack. Both object-created notifications of the upload bucket go to
  the notification queue. No notification goes to the function and no queue is an event
  source of it: the only thing that invokes the function is the gateway method. An upload
  therefore reaches the queue and stops there.
\<close>

theorem upload_notification_never_invokes_function:
  "notified MySmallProjectStack ''UploadBucket'' OBJECT_CREATED
      = [SqsDestination ''NotificationQueue'', SqsDestination ''NotificationQueue'']
   \<and> eventSources MySmallProjectStack = []
   \<and> invokers MySmallProjectStack ''LambdaProcessingTheFile''
      = [ApiMethod ''FileApi'' [''files'', ''{fileId}''] ''GET'']"
  by (simp add: stack_defs notified_def invokers_def)

text \<open>
  C4, evaluated on the stack. The route \<^verbatim>\<open>GET /files/{fileId}\<close> is integrated with the
  file processor itself (\<^verbatim>\<open>processor.handler\<close>). Run on the gateway's event, which has no
  \<^verbatim>\<open>Records\<close>, the processor answers 400 and does nothing: it reads no table.
\<close>

theorem files_route_runs_processor:
  \<open>route MySmallProjectStack ''GET'' [''files'', ''{fileId}'']
      = Some (LambdaIntegration ''LambdaProcessingTheFile'')
   \<and> map_option fn_handler (map_of (lambda_functions MySmallProjectStack) ''LambdaProcessingTheFile'')
      = Some ''processor.handler''
   \<and> handler rt proxy_event = (\<lparr>statusCode = 400, body = ''{"error":"Invalid event"}''\<rparr>, [])\<close>
  by (simp add: stack_defs route_def proxy_event_def handler_Nil quote_def escape_char_def)

end
